theory Spec2Isabelle
  imports Complex_Main
begin

section \<open>Values\<close>

text \<open>
  The request body is decoded JSON, so every value the program handles is one of Python's
  \<^verbatim>\<open>None\<close>, \<^verbatim>\<open>bool\<close>, \<^verbatim>\<open>int\<close>, \<^verbatim>\<open>float\<close>, \<^verbatim>\<open>str\<close>,
  \<^verbatim>\<open>list\<close> and \<^verbatim>\<open>dict\<close> (string keys, later pairs shadowed by earlier ones in the
  association list). Integers are unbounded. A float carries its exact rational value; the only
  floats the program computes itself are sums of 1.5 and 0.5, which binary floating point
  represents exactly.
\<close>

datatype pyval =
    PNone
  | PBool bool
  | PInt int
  | PFloat rat
  | PStr string
  | PList "pyval list"
  | PDict "(string \<times> pyval) list"

text \<open>Python's truth value of an object, as \<^verbatim>\<open>if x:\<close> and \<^verbatim>\<open>x and y\<close> test it.\<close>

fun truthy :: "pyval \<Rightarrow> bool" where
  "truthy PNone = False"
| "truthy (PBool b) = b"
| "truthy (PInt i) = (i \<noteq> 0)"
| "truthy (PFloat f) = (f \<noteq> 0)"
| "truthy (PStr s) = (s \<noteq> [])"
| "truthy (PList xs) = (xs \<noteq> [])"
| "truthy (PDict d) = (d \<noteq> [])"

section \<open>scoring.py\<close>

text \<open>
  \<^verbatim>\<open>get_score(store, phone, email, birthday, gender, first_name, last_name)\<close>: the
  \<^verbatim>\<open>store\<close> argument is never read and is left out. The four \<^verbatim>\<open>if\<close> statements run
  in the source's order on the running total.
\<close>

definition get_score ::
  "pyval \<Rightarrow> pyval \<Rightarrow> pyval \<Rightarrow> pyval \<Rightarrow> pyval \<Rightarrow> pyval \<Rightarrow> rat" where
  "get_score phone email birthday gender first_name last_name =
     (let score = 0;
          score = (if truthy phone then score + 3 / 2 else score);
          score = (if truthy email then score + 3 / 2 else score);
          score = (if truthy birthday \<and> truthy gender then score + 3 / 2 else score);
          score = (if truthy first_name \<and> truthy last_name then score + 1 / 2 else score)
      in score)"

text \<open>
  \<^verbatim>\<open>random.sample(population, k)\<close> of the standard library, for a population of at
  most 21 items and \<open>0 \<le> k \<le> n\<close> (the only call draws 2 of 11): it copies the population
  into a pool and, \<open>k\<close> times, draws an index \<open>j\<close> below the number of items left, takes
  \<open>pool[j]\<close> and moves the last remaining item into slot \<open>j\<close>. The generator is the
  stream of its future raw draws; \<open>randbelow n\<close> consumes one and reduces it below \<open>n\<close>,
  so every sequence of outcomes is some stream.
\<close>

type_synonym rng = "nat \<Rightarrow> nat"

definition randbelow :: "nat \<Rightarrow> rng \<Rightarrow> nat \<times> rng" where
  "randbelow n g = (g 0 mod n, (\<lambda>i. g (Suc i)))"

fun sample_pool :: "nat \<Rightarrow> nat \<Rightarrow> 'a list \<Rightarrow> rng \<Rightarrow> 'a list \<times> rng" where
  "sample_pool 0 m pool g = ([], g)"
| "sample_pool (Suc k) m pool g =
     (let (j, g') = randbelow m g;
          x = pool ! j;
          pool' = pool[j := pool ! (m - 1)];
          (rest, g'') = sample_pool k (m - 1) pool' g'
      in (x # rest, g''))"

definition random_sample :: "'a list \<Rightarrow> nat \<Rightarrow> rng \<Rightarrow> 'a list \<times> rng" where
  "random_sample population k g = sample_pool k (length population) population g"

definition interests :: "string list" where
  "interests =
     [''cars'', ''pets'', ''travel'', ''hi-tech'', ''sport'', ''music'', ''books'', ''tv'',
      ''cinema'', ''geek'', ''otus'']"

text \<open>\<^verbatim>\<open>get_interests(store, cid)\<close>: neither argument is read; \<^verbatim>\<open>cid\<close> is kept.\<close>

definition get_interests :: "pyval \<Rightarrow> rng \<Rightarrow> string list \<times> rng" where
  "get_interests cid g = random_sample interests 2 g"

section \<open>models.py: field validators\<close>

datatype exn = ValueError string | AttributeError string | TypeError string

definition SALT :: string where "SALT = ''Otus''"
definition ADMIN_LOGIN :: string where "ADMIN_LOGIN = ''admin''"
definition ADMIN_SALT :: string where "ADMIN_SALT = ''42''"

text \<open>
  A validated field is declared with its flags; \<^verbatim>\<open>__set_name__\<close> gives it the name of the
  attribute it is bound to. \<^verbatim>\<open>validate\<close> returns the pair \<^verbatim>\<open>(is_valid, error)\<close>, or
  raises.
\<close>

record field =
  name :: string
  required :: bool
  nullable :: bool

type_synonym validation = "exn + bool \<times> string option"

text \<open>\<^verbatim>\<open>isinstance\<close>: a Python \<^verbatim>\<open>bool\<close> is an \<^verbatim>\<open>int\<close>.\<close>

fun is_str :: "pyval \<Rightarrow> bool" where
  "is_str (PStr s) = True"
| "is_str v = False"

fun is_int :: "pyval \<Rightarrow> bool" where
  "is_int (PInt i) = True"
| "is_int (PBool b) = True"
| "is_int v = False"

fun is_dict :: "pyval \<Rightarrow> bool" where
  "is_dict (PDict d) = True"
| "is_dict v = False"

fun is_list :: "pyval \<Rightarrow> bool" where
  "is_list (PList xs) = True"
| "is_list v = False"

text \<open>The number an \<^verbatim>\<open>int\<close> object stands for (\<^verbatim>\<open>True\<close> is 1, \<^verbatim>\<open>False\<close> is 0).\<close>

fun int_of :: "pyval \<Rightarrow> int" where
  "int_of (PInt i) = i"
| "int_of (PBool b) = (if b then 1 else 0)"
| "int_of v = 0"

text \<open>The text of a \<^verbatim>\<open>str\<close> object, and the items of a \<^verbatim>\<open>list\<close> object.\<close>

fun text_of :: "pyval \<Rightarrow> string" where
  "text_of (PStr s) = s"
| "text_of v = []"

fun items_of :: "pyval \<Rightarrow> pyval list" where
  "items_of (PList xs) = xs"
| "items_of v = []"

definition CharField_validate :: "field \<Rightarrow> pyval \<Rightarrow> validation" where
  "CharField_validate f v =
     (if required f \<and> v = PNone then Inr (False, Some (name f @ '' is required''))
      else if \<not> required f \<and> v = PNone then Inr (True, None)
      else if \<not> is_str v then Inr (False, Some (name f @ '' must be a string''))
      else if \<not> nullable f \<and> v = PStr [] then
        Inr (False, Some (name f @ '' must be a non empty string''))
      else Inr (True, None))"

definition ArgumentsField_validate :: "field \<Rightarrow> pyval \<Rightarrow> validation" where
  "ArgumentsField_validate f v =
     (if required f \<and> v = PNone then Inr (False, Some (name f @ '' is required''))
      else if \<not> is_dict v then Inr (False, Some (name f @ '' must be a dictionary''))
      else if \<not> nullable f \<and> v = PDict [] then
        Inr (False, Some (name f @ '' must be a non empty dictionary''))
      else Inr (True, None))"

text \<open>
  \<^verbatim>\<open>EmailField.validate\<close> runs \<^verbatim>\<open>CharField.validate\<close> first, which lets through only
  \<^verbatim>\<open>None\<close> (for a field that is not required) and strings; \<^verbatim>\<open>str(value)\<close> of
  \<^verbatim>\<open>None\<close> is the text \<^verbatim>\<open>"None"\<close>.
\<close>

definition EmailField_validate :: "field \<Rightarrow> pyval \<Rightarrow> validation" where
  "EmailField_validate f v =
     (case CharField_validate f v of
        Inl e \<Rightarrow> Inl e
      | Inr (is_valid, error) \<Rightarrow>
          if \<not> is_valid then Inr (is_valid, error)
          else
            (let value = (if v = PNone then ''None'' else text_of v) in
               if CHR ''@'' \<notin> set value then
                 Inr (False, Some (name f @ '' must be a valid email''))
               else Inr (True, None)))"

definition PhoneField_validate :: "field \<Rightarrow> pyval \<Rightarrow> validation" where
  "PhoneField_validate f v =
     (if required f \<and> v = PNone then Inr (False, Some (name f @ '' is required''))
      else if \<not> is_str v \<and> \<not> is_int v then
        Inr (False, Some (name f @ '' must be a string or an integer''))
      else if is_int v then
        (let parsed_value = int_of v in
           if \<not> nullable f \<and> parsed_value = 0 then
             Inr (False, Some (name f @ '' must be a non emptyvalid phone number''))
           else if parsed_value < 70000000000 \<or> parsed_value > 79999999999 then
             Inr (False, Some (name f @ '' must be a valid phone number''))
           else Inr (True, None))
      else
        (let value = text_of v in
           if \<not> nullable f \<and> value = [] then
             Inr (False, Some (name f @ '' must be a non empty valid phone number''))
           else if \<not> (take 1 value = ''7'') \<or> \<not> (length value = 11) then
             Inr (False, Some (name f @ '' must be a valid phone number''))
           else Inr (True, None)))"

subsection \<open>Dates\<close>

text \<open>
  A \<^verbatim>\<open>datetime\<close>, to the hour. Strings are lists of characters with codes below 256; among
  them the decimal digits that \<^verbatim>\<open>\d\<close> matches are \<^verbatim>\<open>0\<close> to \<^verbatim>\<open>9\<close>.
\<close>

record datetime =
  year :: nat
  month :: nat
  day :: nat
  hour :: nat

text \<open>
  The platform clock: \<^verbatim>\<open>datetime.now()\<close> returns the local wall-clock time \<open>now\<close>;
  \<open>utcnow\<close> is the same instant in UTC (\<^verbatim>\<open>datetime.now(timezone.utc)\<close>), which the
  program never asks for.
\<close>

record clock =
  now :: datetime
  utcnow :: datetime

definition is_digit :: "char \<Rightarrow> bool" where
  "is_digit c = (c \<in> set ''0123456789'')"

definition digit_val :: "char \<Rightarrow> nat" where
  "digit_val c = of_char c - 48"

text \<open>\<^verbatim>\<open>re.match(r"\d{2}\.\d{2}\.\d{4}", s)\<close>: the pattern must match a prefix of \<open>s\<close>.\<close>

fun re_match_date :: "string \<Rightarrow> bool" where
  "re_match_date (d1 # d2 # p1 # m1 # m2 # p2 # y1 # y2 # y3 # y4 # rest) =
     (is_digit d1 \<and> is_digit d2 \<and> p1 = CHR ''.'' \<and> is_digit m1 \<and> is_digit m2 \<and> p2 = CHR ''.''
      \<and> is_digit y1 \<and> is_digit y2 \<and> is_digit y3 \<and> is_digit y4)"
| "re_match_date s = False"

definition leap_year :: "nat \<Rightarrow> bool" where
  "leap_year y = (y mod 4 = 0 \<and> (y mod 100 \<noteq> 0 \<or> y mod 400 = 0))"

definition days_in_month :: "nat \<Rightarrow> nat \<Rightarrow> nat" where
  "days_in_month y m =
     (if m = 2 then (if leap_year y then 29 else 28)
      else if m \<in> {4, 6, 9, 11} then 30 else 31)"

text \<open>
  \<^verbatim>\<open>datetime.strptime(s, "%d.%m.%Y")\<close> of the standard library. The day directive matches
  30-31, 10-29, 01-09, a single 1-9, or a space and 1-9; the month directive 10-12, 01-09 or a
  single 1-9; the year directive four digits. A two-character match ends in a digit, so when
  it is not followed by the dot the one-character alternative fails too: trying the
  alternatives in order needs no backtracking. The whole string must be consumed, the year must
  be at least 1 and the day must exist in the month; every failure raises \<^verbatim>\<open>ValueError\<close>.
  The text of the message for a day that the month does not have is the one of CPython 3.12.
\<close>

definition day_directive :: "string \<Rightarrow> (nat \<times> string) option" where
  "day_directive s =
     (case s of
        [] \<Rightarrow> None
      | a # r \<Rightarrow>
          (case r of
             b # rest \<Rightarrow>
               if (a = CHR ''3'' \<and> b \<in> set ''01'') \<or> (a \<in> set ''12'' \<and> is_digit b)
                  \<or> (a = CHR ''0'' \<and> b \<in> set ''123456789'')
               then Some (digit_val a * 10 + digit_val b, rest)
               else if a \<in> set ''123456789'' then Some (digit_val a, r)
               else if a = CHR '' '' \<and> b \<in> set ''123456789'' then Some (digit_val b, rest)
               else None
           | [] \<Rightarrow> if a \<in> set ''123456789'' then Some (digit_val a, r) else None))"

definition month_directive :: "string \<Rightarrow> (nat \<times> string) option" where
  "month_directive s =
     (case s of
        [] \<Rightarrow> None
      | a # r \<Rightarrow>
          (case r of
             b # rest \<Rightarrow>
               if (a = CHR ''1'' \<and> b \<in> set ''012'') \<or> (a = CHR ''0'' \<and> b \<in> set ''123456789'')
               then Some (digit_val a * 10 + digit_val b, rest)
               else if a \<in> set ''123456789'' then Some (digit_val a, r)
               else None
           | [] \<Rightarrow> if a \<in> set ''123456789'' then Some (digit_val a, r) else None))"

fun year_directive :: "string \<Rightarrow> (nat \<times> string) option" where
  "year_directive (y1 # y2 # y3 # y4 # rest) =
     (if is_digit y1 \<and> is_digit y2 \<and> is_digit y3 \<and> is_digit y4
      then Some (digit_val y1 * 1000 + digit_val y2 * 100 + digit_val y3 * 10 + digit_val y4, rest)
      else None)"
| "year_directive s = None"

fun dot :: "string \<Rightarrow> string option" where
  "dot (c # rest) = (if c = CHR ''.'' then Some rest else None)"
| "dot [] = None"

text \<open>
  \<^verbatim>\<open>repr\<close> of a string, which the library's message for a string that does not match
  quotes: in single quotes, or in double quotes when the text has a single and no double quote;
  the quote and the backslash are escaped, tab, newline and carriage return are written
  \<^verbatim>\<open>\t\<close>, \<^verbatim>\<open>\n\<close>, \<^verbatim>\<open>\r\<close>, and the other characters that do not print (codes below 32,
  127 to 160, and 173) as \<^verbatim>\<open>\x\<close> and two hexadecimal digits.
\<close>

definition printable :: "char \<Rightarrow> bool" where
  "printable c =
     ((32 \<le> (of_char c :: nat) \<and> (of_char c :: nat) < 127)
      \<or> (161 \<le> (of_char c :: nat) \<and> (of_char c :: nat) \<noteq> 173))"

definition hex2 :: "nat \<Rightarrow> string" where
  "hex2 n = [''0123456789abcdef'' ! (n div 16 mod 16), ''0123456789abcdef'' ! (n mod 16)]"

definition repr_char :: "char \<Rightarrow> char \<Rightarrow> string" where
  "repr_char q c =
     (if c = q \<or> c = CHR 0x5C then [CHR 0x5C, c]
      else if c = CHR 0x09 then [CHR 0x5C, CHR ''t'']
      else if c = CHR 0x0A then [CHR 0x5C, CHR ''n'']
      else if c = CHR 0x0D then [CHR 0x5C, CHR ''r'']
      else if \<not> printable c then [CHR 0x5C, CHR ''x''] @ hex2 (of_char c)
      else [c])"

definition repr :: "string \<Rightarrow> string" where
  "repr s =
     (let q = (if CHR 0x27 \<in> set s \<and> CHR 0x22 \<notin> set s then CHR 0x22 else CHR 0x27)
      in [q] @ concat (map (repr_char q) s) @ [q])"

definition no_match :: "string \<Rightarrow> exn" where
  "no_match s =
     ValueError (''time data '' @ repr s @ '' does not match format '' @ repr ''%d.%m.%Y'')"

definition strptime :: "string \<Rightarrow> exn + datetime" where
  "strptime s =
     (case day_directive s of
        None \<Rightarrow> Inl (no_match s)
      | Some (d, r1) \<Rightarrow>
     (case dot r1 of
        None \<Rightarrow> Inl (no_match s)
      | Some r2 \<Rightarrow>
     (case month_directive r2 of
        None \<Rightarrow> Inl (no_match s)
      | Some (m, r3) \<Rightarrow>
     (case dot r3 of
        None \<Rightarrow> Inl (no_match s)
      | Some r4 \<Rightarrow>
     (case year_directive r4 of
        None \<Rightarrow> Inl (no_match s)
      | Some (y, r5) \<Rightarrow>
          if r5 \<noteq> [] then Inl (ValueError (''unconverted data remains: '' @ r5))
          else if y < 1 then Inl (ValueError ''year 0 is out of range'')
          else if d > days_in_month y m then Inl (ValueError ''day is out of range for month'')
          else Inr \<lparr>year = y, month = m, day = d, hour = 0\<rparr>)))))"

text \<open>
  \<^verbatim>\<open>str(value)\<close> is the text itself for a string. For every other JSON value it is text
  that the date pattern cannot match: \<^verbatim>\<open>None\<close>, \<^verbatim>\<open>True\<close>, \<^verbatim>\<open>False\<close>, a list and
  a dict do not start with a digit, and a number has at most one dot.
\<close>

definition matches_date_pattern :: "pyval \<Rightarrow> bool" where
  "matches_date_pattern v = (is_str v \<and> re_match_date (text_of v))"

text \<open>
  \<^verbatim>\<open>parsed_date == date.min\<close> compares the parsed \<^verbatim>\<open>datetime\<close> with a \<^verbatim>\<open>date\<close>;
  Python never finds a \<^verbatim>\<open>datetime\<close> equal to a plain \<^verbatim>\<open>date\<close>.
\<close>

definition equals_date_min :: "datetime \<Rightarrow> bool" where
  "equals_date_min parsed_date = False"

definition DateField_validate :: "field \<Rightarrow> pyval \<Rightarrow> validation" where
  "DateField_validate f v =
     (if required f \<and> v = PNone then Inr (False, Some (name f @ '' is required''))
      else if \<not> matches_date_pattern v then Inr (False, Some (name f @ '' must be a valid date''))
      else
        (case strptime (text_of v) of
           Inl e \<Rightarrow> Inl e
         | Inr parsed_date \<Rightarrow>
             if \<not> nullable f \<and> equals_date_min parsed_date then
               Inr (False, Some (name f @ '' must be a non empty date''))
             else Inr (True, None)))"

definition BirthDayField_validate :: "clock \<Rightarrow> field \<Rightarrow> pyval \<Rightarrow> validation" where
  "BirthDayField_validate clk f v =
     (case DateField_validate f v of
        Inl e \<Rightarrow> Inl e
      | Inr (is_valid, error) \<Rightarrow>
          if \<not> is_valid then Inr (is_valid, error)
          else
            (case strptime (text_of v) of
               Inl e \<Rightarrow> Inl e
             | Inr parsed_date \<Rightarrow>
                 if \<not> (int (year parsed_date) > int (year (now clk)) - 70) then
                   Inr (False, Some (name f @ '' must be less than 70 years old''))
                 else Inr (True, None)))"

definition GenderField_validate :: "field \<Rightarrow> pyval \<Rightarrow> validation" where
  "GenderField_validate f v =
     (if required f \<and> v = PNone then Inr (False, Some (name f @ '' is required''))
      else if \<not> is_int v then Inr (False, Some (name f @ '' must be an integer''))
      else if int_of v \<notin> set [0, 1, 2] then Inr (False, Some (name f @ '' must be 0, 1 or 2''))
      else Inr (True, None))"

definition ClientIDsField_validate :: "field \<Rightarrow> pyval \<Rightarrow> validation" where
  "ClientIDsField_validate f v =
     (if required f \<and> v = PNone then Inr (False, Some (name f @ '' is required''))
      else if \<not> is_list v \<or> \<not> list_all is_int (items_of v) then
        Inr (False, Some (name f @ '' must be a list of integers''))
      else if \<not> nullable f \<and> v = PList [] then
        Inr (False, Some (name f @ '' must be a non empty list of integers''))
      else Inr (True, None))"

text \<open>
  \<^verbatim>\<open>BaseValidatedField.__set__\<close>: an assignment to a validated attribute validates the value
  and raises \<^verbatim>\<open>ValueError\<close> when it is refused; an exception of the validator itself passes
  through. The source keeps the accepted value on the field object, which all instances of the
  class share; each constructor assigns every attribute before anything reads one, so within a
  call the attributes read are the values just assigned, and a request is a record of them.
\<close>

definition descriptor_set :: "(field \<Rightarrow> pyval \<Rightarrow> validation) \<Rightarrow> field \<Rightarrow> pyval \<Rightarrow> exn + pyval" where
  "descriptor_set validate f v =
     (case validate f v of
        Inl e \<Rightarrow> Inl e
      | Inr (is_valid, error) \<Rightarrow>
          if \<not> is_valid then
            Inl (ValueError (''Invalid field value for '' @ name f @ '': ''
                             @ (case error of Some m \<Rightarrow> m | None \<Rightarrow> ''None'')))
          else Inr v)"

text \<open>Statements in sequence: the first exception ends the block.\<close>

definition and_then :: "exn + 'a \<Rightarrow> ('a \<Rightarrow> exn + 'b) \<Rightarrow> exn + 'b" where
  "and_then m k = (case m of Inl e \<Rightarrow> Inl e | Inr x \<Rightarrow> k x)"

text \<open>\<^verbatim>\<open>data.get(key, None)\<close> on a decoded JSON object.\<close>

definition dict_get :: "(string \<times> pyval) list \<Rightarrow> string \<Rightarrow> pyval" where
  "dict_get d k = (case map_of d k of None \<Rightarrow> PNone | Some v \<Rightarrow> v)"

section \<open>models.py: requests\<close>

subsection \<open>ClientsInterestsRequest\<close>

definition client_ids_field :: field where
  "client_ids_field = \<lparr>name = ''client_ids'', required = True, nullable = False\<rparr>"

definition date_field :: field where
  "date_field = \<lparr>name = ''date'', required = False, nullable = True\<rparr>"

record ClientsInterestsRequest =
  client_ids :: pyval
  date :: pyval

text \<open>
  The constructors call \<^verbatim>\<open>data.get\<close>, which only a dict has; on any other object the
  attribute lookup raises \<^verbatim>\<open>AttributeError\<close>.
\<close>

definition no_get :: exn where
  "no_get = AttributeError ''object has no attribute 'get' ''"

definition ClientsInterestsRequest_init :: "pyval \<Rightarrow> exn + ClientsInterestsRequest" where
  "ClientsInterestsRequest_init data =
     (case data of
        PDict d \<Rightarrow>
          and_then (descriptor_set ClientIDsField_validate client_ids_field (dict_get d ''client_ids''))
            (\<lambda>ids.
          and_then (descriptor_set DateField_validate date_field (dict_get d ''date''))
            (\<lambda>dt.
          Inr \<lparr>client_ids = ids, date = dt\<rparr>))
      | _ \<Rightarrow> Inl no_get)"

text \<open>
  Keys of a Python dict are compared with \<^verbatim>\<open>==\<close>: numbers by value (so \<^verbatim>\<open>True\<close> and
  \<^verbatim>\<open>1\<close> are one key), other hashable values by content. Storing under a key that is there
  replaces its value and keeps the key and its place; a new key goes last.
\<close>

fun num_of :: "pyval \<Rightarrow> rat option" where
  "num_of (PBool b) = Some (if b then 1 else 0)"
| "num_of (PInt i) = Some (of_int i)"
| "num_of (PFloat x) = Some x"
| "num_of v = None"

definition key_eq :: "pyval \<Rightarrow> pyval \<Rightarrow> bool" where
  "key_eq a b =
     (case (num_of a, num_of b) of
        (Some x, Some y) \<Rightarrow> x = y
      | (None, None) \<Rightarrow> a = b
      | _ \<Rightarrow> False)"

definition dict_put :: "(pyval \<times> 'v) list \<Rightarrow> pyval \<Rightarrow> 'v \<Rightarrow> (pyval \<times> 'v) list" where
  "dict_put d k v =
     (if list_ex (\<lambda>kv. key_eq (fst kv) k) d
      then map (\<lambda>kv. if key_eq (fst kv) k then (fst kv, v) else kv) d
      else d @ [(k, v)])"

text \<open>
  \<^verbatim>\<open>{client_id: get_interests(store=None, cid=client_id) for client_id in self.client_ids}\<close>:
  one sample per item of the list, in order, each stored under its identifier.
\<close>

fun interests_loop ::
  "pyval list \<Rightarrow> (pyval \<times> string list) list \<Rightarrow> rng \<Rightarrow> (pyval \<times> string list) list \<times> rng" where
  "interests_loop [] d g = (d, g)"
| "interests_loop (client_id # rest) d g =
     (let (tags, g') = get_interests client_id g
      in interests_loop rest (dict_put d client_id tags) g')"

definition ClientsInterestsRequest_execute ::
  "ClientsInterestsRequest \<Rightarrow> rng \<Rightarrow> (pyval \<times> string list) list \<times> rng" where
  "ClientsInterestsRequest_execute r g = interests_loop (items_of (client_ids r)) [] g"

subsection \<open>OnlineScoreRequest\<close>

definition phone_field :: field where
  "phone_field = \<lparr>name = ''phone'', required = False, nullable = True\<rparr>"

definition email_field :: field where
  "email_field = \<lparr>name = ''email'', required = False, nullable = True\<rparr>"

definition first_name_field :: field where
  "first_name_field = \<lparr>name = ''first_name'', required = False, nullable = True\<rparr>"

definition last_name_field :: field where
  "last_name_field = \<lparr>name = ''last_name'', required = False, nullable = True\<rparr>"

definition birthday_field :: field where
  "birthday_field = \<lparr>name = ''birthday'', required = False, nullable = True\<rparr>"

definition gender_field :: field where
  "gender_field = \<lparr>name = ''gender'', required = False, nullable = True\<rparr>"

record OnlineScoreRequest =
  phone :: pyval
  email :: pyval
  first_name :: pyval
  last_name :: pyval
  birthday :: pyval
  gender :: pyval

definition OnlineScoreRequest_init :: "clock \<Rightarrow> pyval \<Rightarrow> exn + OnlineScoreRequest" where
  "OnlineScoreRequest_init clk data =
     (case data of
        PDict d \<Rightarrow>
          and_then (descriptor_set PhoneField_validate phone_field (dict_get d ''phone''))
            (\<lambda>ph.
          and_then (descriptor_set EmailField_validate email_field (dict_get d ''email''))
            (\<lambda>em.
          and_then (descriptor_set CharField_validate first_name_field (dict_get d ''first_name''))
            (\<lambda>fn.
          and_then (descriptor_set CharField_validate last_name_field (dict_get d ''last_name''))
            (\<lambda>ln.
          and_then (descriptor_set (BirthDayField_validate clk) birthday_field (dict_get d ''birthday''))
            (\<lambda>bd.
          and_then (descriptor_set GenderField_validate gender_field (dict_get d ''gender''))
            (\<lambda>gn.
          Inr \<lparr>phone = ph, email = em, first_name = fn, last_name = ln,
               birthday = bd, gender = gn\<rparr>))))))
      | _ \<Rightarrow> Inl no_get)"

definition OnlineScoreRequest_validate :: "OnlineScoreRequest \<Rightarrow> bool" where
  "OnlineScoreRequest_validate r =
     (if truthy (phone r) \<and> truthy (email r) then True
      else if truthy (first_name r) \<and> truthy (last_name r) then True
      else if truthy (gender r) \<and> truthy (birthday r) then True
      else False)"

definition OnlineScoreRequest_execute :: "OnlineScoreRequest \<Rightarrow> exn + pyval" where
  "OnlineScoreRequest_execute r =
     (if \<not> OnlineScoreRequest_validate r then Inl (ValueError ''Invalid arguments'')
      else Inr (PDict [(''score'',
             PFloat (get_score (phone r) (email r) (birthday r) (gender r)
                       (first_name r) (last_name r)))]))"

text \<open>
  \<^verbatim>\<open>method_handler\<close> calls \<^verbatim>\<open>argument_request.get_fields()\<close>. Neither
  \<^verbatim>\<open>OnlineScoreRequest\<close> nor its base \<^verbatim>\<open>BaseRequest\<close> defines \<^verbatim>\<open>get_fields\<close>, and no
  class here defines \<^verbatim>\<open>__getattr__\<close>, so the attribute lookup raises.
\<close>

definition get_fields :: "OnlineScoreRequest \<Rightarrow> exn + pyval" where
  "get_fields r =
     Inl (AttributeError ''object has no attribute 'get_fields' '')"

subsection \<open>MethodRequest\<close>

definition account_field :: field where
  "account_field = \<lparr>name = ''account'', required = False, nullable = True\<rparr>"

definition login_field :: field where
  "login_field = \<lparr>name = ''login'', required = True, nullable = True\<rparr>"

definition method_field :: field where
  "method_field = \<lparr>name = ''method'', required = True, nullable = False\<rparr>"

definition token_field :: field where
  "token_field = \<lparr>name = ''token'', required = True, nullable = True\<rparr>"

definition arguments_field :: field where
  "arguments_field = \<lparr>name = ''arguments'', required = True, nullable = True\<rparr>"

record MethodRequest =
  account :: pyval
  login :: pyval
  "method" :: pyval
  token :: pyval
  arguments :: pyval

text \<open>
  \<^verbatim>\<open>MethodRequest(data)\<close>: \<^verbatim>\<open>data\<close> is the dict the server builds, with the decoded body
  under \<^verbatim>\<open>"body"\<close>; the attributes are assigned in the order account, login, token,
  arguments, method.
\<close>

definition MethodRequest_init :: "(string \<times> pyval) list \<Rightarrow> exn + MethodRequest" where
  "MethodRequest_init data =
     (case (case map_of data ''body'' of None \<Rightarrow> PDict [] | Some b \<Rightarrow> b) of
        PDict body \<Rightarrow>
          and_then (descriptor_set CharField_validate account_field (dict_get body ''account''))
            (\<lambda>ac.
          and_then (descriptor_set CharField_validate login_field (dict_get body ''login''))
            (\<lambda>lg.
          and_then (descriptor_set CharField_validate token_field (dict_get body ''token''))
            (\<lambda>tk.
          and_then (descriptor_set ArgumentsField_validate arguments_field (dict_get body ''arguments''))
            (\<lambda>ar.
          and_then (descriptor_set CharField_validate method_field (dict_get body ''method''))
            (\<lambda>mt.
          Inr \<lparr>account = ac, login = lg, method = mt, token = tk, arguments = ar\<rparr>)))))
      | _ \<Rightarrow> Inl no_get)"

definition is_admin :: "MethodRequest \<Rightarrow> bool" where
  "is_admin r = (login r = PStr ADMIN_LOGIN)"

text \<open>
  \<^verbatim>\<open>strftime("%Y%m%d%H")\<close>: year in four digits, month, day and hour in two. It is
  applied to \<^verbatim>\<open>datetime.now()\<close> only, whose year has four digits.
\<close>

definition digit_char :: "nat \<Rightarrow> char" where
  "digit_char n = ''0123456789'' ! (n mod 10)"

definition two_digits :: "nat \<Rightarrow> string" where
  "two_digits n = [digit_char (n div 10), digit_char n]"

definition four_digits :: "nat \<Rightarrow> string" where
  "four_digits n = [digit_char (n div 1000), digit_char (n div 100), digit_char (n div 10), digit_char n]"

definition strftime_YmdH :: "datetime \<Rightarrow> string" where
  "strftime_YmdH t = four_digits (year t) @ two_digits (month t) @ two_digits (day t) @ two_digits (hour t)"

text \<open>
  \<^verbatim>\<open>check_auth\<close>. The parameter \<open>H\<close> is the library's
  \<^verbatim>\<open>hashlib.sha512(s.encode("utf-8")).hexdigest()\<close>, a function from text to text.
  Concatenating anything but strings raises \<^verbatim>\<open>TypeError\<close>.
\<close>

definition check_auth :: "(string \<Rightarrow> string) \<Rightarrow> clock \<Rightarrow> MethodRequest \<Rightarrow> exn + bool" where
  "check_auth H clk r =
     (if is_admin r then
        (let digest = H (strftime_YmdH (now clk) @ ADMIN_SALT) in Inr (PStr digest = token r))
      else
        (let acc = (if truthy (account r) then account r else PStr []) in
           if is_str acc \<and> is_str (login r) then
             (let digest = H (text_of acc @ text_of (login r) @ SALT) in Inr (PStr digest = token r))
           else Inl (TypeError ''can only concatenate str to str'')))"

section \<open>api.py\<close>

definition OK :: int where "OK = 200"
definition BAD_REQUEST :: int where "BAD_REQUEST = 400"
definition FORBIDDEN :: int where "FORBIDDEN = 403"
definition NOT_FOUND :: int where "NOT_FOUND = 404"
definition INVALID_REQUEST :: int where "INVALID_REQUEST = 422"
definition INTERNAL_ERROR :: int where "INTERNAL_ERROR = 500"

text \<open>
  What \<^verbatim>\<open>method_handler\<close> returns first: an error text, a JSON payload, or the mapping from
  client identifiers to tags. The handler's whole result is that (or the exception that
  escapes it) with the status code, the context dict as the call leaves it, and the generator.
\<close>

datatype response =
    Message string
  | Payload pyval
  | Interests "(pyval \<times> string list) list"

type_synonym ctx = "string \<rightharpoonup> pyval"

type_synonym outcome = "(exn + response \<times> int) \<times> ctx \<times> rng"

text \<open>The \<^verbatim>\<open>except ValueError as e\<close> clause of the second \<^verbatim>\<open>try\<close>.\<close>

definition except_ValueError :: "exn \<Rightarrow> ctx \<Rightarrow> rng \<Rightarrow> outcome" where
  "except_ValueError e c g =
     (case e of
        ValueError msg \<Rightarrow> (Inr (Message msg, INVALID_REQUEST), c, g)
      | _ \<Rightarrow> (Inl e, c, g))"

definition method_handler ::
  "(string \<Rightarrow> string) \<Rightarrow> clock \<Rightarrow> (string \<times> pyval) list \<Rightarrow> ctx \<Rightarrow> rng \<Rightarrow> outcome" where
  "method_handler H clk request c g =
     (case MethodRequest_init request of
        Inl e \<Rightarrow> except_ValueError e c g
      | Inr method_request \<Rightarrow>
     (case check_auth H clk method_request of
        Inl e \<Rightarrow> (Inl e, c, g)
      | Inr authorized \<Rightarrow>
          if \<not> authorized then (Inr (Message ''Forbidden'', FORBIDDEN), c, g)
          else if method method_request = PStr ''online_score'' then
            (case OnlineScoreRequest_init clk (arguments method_request) of
               Inl e \<Rightarrow> except_ValueError e c g
             | Inr argument_request \<Rightarrow>
            (case get_fields argument_request of
               Inl e \<Rightarrow> except_ValueError e c g
             | Inr has \<Rightarrow>
                 (let c = c(''has'' \<mapsto> has) in
                    if is_admin method_request then
                      (Inr (Payload (PDict [(''score'', PInt 42)]), OK), c, g)
                    else
                      (case OnlineScoreRequest_execute argument_request of
                         Inl e \<Rightarrow> except_ValueError e c g
                       | Inr resp \<Rightarrow> (Inr (Payload resp, OK), c, g)))))
          else if method method_request = PStr ''clients_interests'' then
            (case ClientsInterestsRequest_init (arguments method_request) of
               Inl e \<Rightarrow> except_ValueError e c g
             | Inr argument_request \<Rightarrow>
                 (let c = c(''nclients'' \<mapsto> PInt (int (length (items_of (client_ids argument_request)))));
                      (resp, g') = ClientsInterestsRequest_execute argument_request g
                  in (Inr (Interests resp, OK), c, g')))
          else (Inr (Message ''Invalid method'', INVALID_REQUEST), c, g)))"

section \<open>The digest function of the standard library\<close>

text \<open>
  \<^verbatim>\<open>hashlib.sha512(s.encode("utf-8")).hexdigest()\<close>, after FIPS 180-4: the function that
  \<open>check_auth\<close> is run with in the closed examples below. A 64-bit word is a natural number
  below \<open>2 ^ 64\<close>. The text is encoded in UTF-8 (one byte for a code below 128, two up to
  255), padded with the byte 128, zero bytes and its length in bits as 16 bytes, and cut into
  blocks of sixteen words; each block runs through 80 rounds, which keep the eight working
  words and a window of the next sixteen words of the message schedule.
\<close>

unbundle bit_operations_syntax

definition add64 :: "nat \<Rightarrow> nat \<Rightarrow> nat" where
  "add64 a b =
     (if a + b < 18446744073709551616 then a + b else a + b - 18446744073709551616)"

definition rotr :: "nat \<Rightarrow> nat \<Rightarrow> nat" where
  "rotr n x = drop_bit n x + push_bit (64 - n) (take_bit n x)"

definition shr :: "nat \<Rightarrow> nat \<Rightarrow> nat" where
  "shr n x = drop_bit n x"

definition Ch :: "nat \<Rightarrow> nat \<Rightarrow> nat \<Rightarrow> nat" where
  "Ch e f g = (e AND f) XOR ((18446744073709551615 - e) AND g)"

definition Maj :: "nat \<Rightarrow> nat \<Rightarrow> nat \<Rightarrow> nat" where
  "Maj a b c = (a AND b) XOR (a AND c) XOR (b AND c)"

definition Sigma0 :: "nat \<Rightarrow> nat" where
  "Sigma0 x = rotr 28 x XOR rotr 34 x XOR rotr 39 x"

definition Sigma1 :: "nat \<Rightarrow> nat" where
  "Sigma1 x = rotr 14 x XOR rotr 18 x XOR rotr 41 x"

definition sigma0 :: "nat \<Rightarrow> nat" where
  "sigma0 x = rotr 1 x XOR rotr 8 x XOR shr 7 x"

definition sigma1 :: "nat \<Rightarrow> nat" where
  "sigma1 x = rotr 19 x XOR rotr 61 x XOR shr 6 x"

definition K512 :: "nat list" where
  "K512 =
     [4794697086780616226, 8158064640168781261, 13096744586834688815,
      16840607885511220156, 4131703408338449720, 6480981068601479193,
      10538285296894168987, 12329834152419229976, 15566598209576043074,
      1334009975649890238, 2608012711638119052, 6128411473006802146,
      8268148722764581231, 9286055187155687089, 11230858885718282805,
      13951009754708518548, 16472876342353939154, 17275323862435702243,
      1135362057144423861, 2597628984639134821, 3308224258029322869,
      5365058923640841347, 6679025012923562964, 8573033837759648693,
      10970295158949994411, 12119686244451234320, 12683024718118986047,
      13788192230050041572, 14330467153632333762, 15395433587784984357,
      489312712824947311, 1452737877330783856, 2861767655752347644,
      3322285676063803686, 5560940570517711597, 5996557281743188959,
      7280758554555802590, 8532644243296465576, 9350256976987008742,
      10552545826968843579, 11727347734174303076, 12113106623233404929,
      14000437183269869457, 14369950271660146224, 15101387698204529176,
      15463397548674623760, 17586052441742319658, 1182934255886127544,
      1847814050463011016, 2177327727835720531, 2830643537854262169,
      3796741975233480872, 4115178125766777443, 5681478168544905931,
      6601373596472566643, 7507060721942968483, 8399075790359081724,
      8693463985226723168, 9568029438360202098, 10144078919501101548,
      10430055236837252648, 11840083180663258601, 13761210420658862357,
      14299343276471374635, 14566680578165727644, 15097957966210449927,
      16922976911328602910, 17689382322260857208, 500013540394364858,
      748580250866718886, 1242879168328830382, 1977374033974150939,
      2944078676154940804, 3659926193048069267, 4368137639120453308,
      4836135668995329356, 5532061633213252278, 6448918945643986474,
      6902733635092675308, 7801388544844847127]"

definition H512 :: "nat list" where
  "H512 =
     [7640891576956012808, 13503953896175478587, 4354685564936845355,
      11912009170470909681, 5840696475078001361, 11170449401992604703,
      2270897969802886507, 6620516959819538809]"

definition T1 :: "nat \<Rightarrow> nat \<Rightarrow> nat \<Rightarrow> nat \<Rightarrow> nat \<Rightarrow> nat \<Rightarrow> nat" where
  "T1 h e f g k w = add64 (add64 (add64 (add64 h (Sigma1 e)) (Ch e f g)) k) w"

definition T2 :: "nat \<Rightarrow> nat \<Rightarrow> nat \<Rightarrow> nat" where
  "T2 a b c = add64 (Sigma0 a) (Maj a b c)"

definition next_w :: "nat list \<Rightarrow> nat" where
  "next_w w = add64 (add64 (add64 (sigma1 (w ! 14)) (w ! 9)) (sigma0 (w ! 1))) (w ! 0)"

definition shift_in :: "nat list \<Rightarrow> nat \<Rightarrow> nat \<Rightarrow> nat list" where
  "shift_in s t1 t2 =
     [add64 t1 t2, s ! 0, s ! 1, s ! 2, add64 (s ! 3) t1, s ! 4, s ! 5, s ! 6]"

definition round512 :: "nat \<Rightarrow> nat list \<times> nat list \<Rightarrow> nat list \<times> nat list" where
  "round512 k sw =
     (shift_in (fst sw)
        (T1 (fst sw ! 7) (fst sw ! 4) (fst sw ! 5) (fst sw ! 6) k (snd sw ! 0))
        (T2 (fst sw ! 0) (fst sw ! 1) (fst sw ! 2)),
      tl (snd sw) @ [next_w (snd sw)])"

definition compress :: "nat list \<Rightarrow> nat list \<Rightarrow> nat list" where
  "compress block h = map2 add64 h (fst (fold round512 K512 (h, block)))"

definition pad :: "nat list \<Rightarrow> nat list" where
  "pad bs =
     bs @ [128] @ replicate ((239 - length bs mod 128) mod 128) 0
     @ map (\<lambda>i. (8 * length bs) div 256 ^ i mod 256)
         [15, 14, 13, 12, 11, 10, 9, 8, 7, 6, 5, 4, 3, 2, 1, 0]"

fun words64 :: "nat list \<Rightarrow> nat list" where
  "words64 (a # b # c # d # e # f # g # h # rest) =
     (((((((a * 256 + b) * 256 + c) * 256 + d) * 256 + e) * 256 + f) * 256 + g) * 256 + h)
     # words64 rest"
| "words64 bs = []"

fun blocks :: "nat list \<Rightarrow> nat list list" where
  "blocks (w0 # w1 # w2 # w3 # w4 # w5 # w6 # w7 # w8 # w9 # w10 # w11 # w12 # w13 # w14 # w15
           # rest) =
     [w0, w1, w2, w3, w4, w5, w6, w7, w8, w9, w10, w11, w12, w13, w14, w15] # blocks rest"
| "blocks ws = []"

definition utf8 :: "char \<Rightarrow> nat list" where
  "utf8 c =
     (if of_char c < (128::nat) then [of_char c]
      else [192 + of_char c div 64, 128 + of_char c mod 64])"

definition hex64 :: "nat \<Rightarrow> string" where
  "hex64 x =
     map (\<lambda>i. ''0123456789abcdef'' ! (x div 16 ^ i mod 16))
       [15, 14, 13, 12, 11, 10, 9, 8, 7, 6, 5, 4, 3, 2, 1, 0]"

definition sha512_hexdigest :: "string \<Rightarrow> string" where
  "sha512_hexdigest s =
     concat (map hex64 (fold compress (blocks (words64 (pad (concat (map utf8 s))))) H512))"

section \<open>Evaluation rules\<close>

lemmas field_defs =
  client_ids_field_def date_field_def phone_field_def email_field_def first_name_field_def
  last_name_field_def birthday_field_def gender_field_def account_field_def login_field_def
  method_field_def token_field_def arguments_field_def

lemmas strptime_defs =
  strptime_def day_directive_def month_directive_def is_digit_def digit_val_def
  days_in_month_def leap_year_def no_match_def repr_def repr_char_def printable_def hex2_def

lemmas validate_defs =
  CharField_validate_def ArgumentsField_validate_def EmailField_validate_def
  PhoneField_validate_def DateField_validate_def BirthDayField_validate_def
  GenderField_validate_def ClientIDsField_validate_def matches_date_pattern_def
  equals_date_min_def

lemmas init_defs =
  MethodRequest_init_def OnlineScoreRequest_init_def ClientsInterestsRequest_init_def
  and_then_def descriptor_set_def dict_get_def

lemmas strftime_defs = strftime_YmdH_def four_digits_def two_digits_def digit_char_def

lemmas sha512_defs =
  sha512_hexdigest_def utf8_def pad_def compress_def K512_def H512_def hex64_def round512_def
  T1_def T2_def next_w_def shift_in_def add64_def rotr_def shr_def Ch_def Maj_def Sigma0_def
  Sigma1_def sigma0_def sigma1_def

section \<open>The digest function\<close>

lemma replicate_numeral_Cons: "replicate (numeral k) x = x # replicate (pred_numeral k) x"
  by (simp add: numeral_eq_Suc)

text \<open>The model agrees with the standard's test vector for the message \<^verbatim>\<open>abc\<close>.\<close>

lemma sha512_hexdigest_abc:
  "sha512_hexdigest ''abc'' =
     ''ddaf35a193617abacc417349ae20413112e6fa4e89a97ea20a9eeee64b55d39a2192992a274fc1a836ba3c23a3feebbd454d4423643ce80e2a9ac94fa54ca49f''"
  by (simp add: sha512_defs replicate_numeral_Cons)

text \<open>
  The digests of the hour 15 and of the hour 12 of 3 November 2026, each followed by the
  admin salt.
\<close>

lemma sha512_hexdigest_hour_15:
  "sha512_hexdigest ''202611031542'' =
     ''657ee265a614cc1ad869e30a3073036844806d676b401b414188092a8f01b9da395010426045dc8da8b64fb232cd7883560e47b5c748a0d1ee0f80267e546661''"
  by (simp add: sha512_defs replicate_numeral_Cons)

lemma sha512_hexdigest_hour_12:
  "sha512_hexdigest ''202611031242'' =
     ''bd459496f45bd951ed0e928bf67efa6219882b315972f3f7df969b3e0fc266099668d36c72ee0ae6d1f81ac96bef5f887c042a7194c3f8be7ca3cb5330756cb7''"
  by (simp add: sha512_defs replicate_numeral_Cons)

text \<open>A digest is always 128 characters long, whatever the message.\<close>

lemma length_fold_round512:
  "length (fst sw) = 8 \<Longrightarrow> length (fst (fold round512 ks sw)) = 8"
  by (induction ks arbitrary: sw) (simp_all add: round512_def shift_in_def)

lemma length_compress: "length h = 8 \<Longrightarrow> length (compress block h) = 8"
  by (simp add: compress_def length_fold_round512)

lemma length_fold_compress: "length h = 8 \<Longrightarrow> length (fold compress bs h) = 8"
  by (induction bs arbitrary: h) (simp_all add: length_compress)

lemma length_concat_hex64: "length (concat (map hex64 ws)) = 16 * length ws"
  by (induction ws) (simp_all add: hex64_def)

lemma length_sha512_hexdigest: "length (sha512_hexdigest s) = 128"
  by (simp add: sha512_hexdigest_def length_concat_hex64 length_fold_compress H512_def)

lemma sha512_hexdigest_not_empty: "sha512_hexdigest s \<noteq> []"
  using length_sha512_hexdigest [of s] by auto

text \<open>A digest is written in lowercase hexadecimal digits.\<close>

lemma hex64_lowercase: "set (hex64 x) \<subseteq> set ''0123456789abcdef''"
proof -
  have "''0123456789abcdef'' ! (n mod 16) \<in> set ''0123456789abcdef''" for n :: nat
    by (rule nth_mem) simp
  then show ?thesis
    unfolding hex64_def set_map by (intro image_subsetI)
qed

lemma sha512_hexdigest_lowercase_hex:
  "set (sha512_hexdigest s) \<subseteq> set ''0123456789abcdef''"
  using hex64_lowercase unfolding sha512_hexdigest_def set_concat set_map by blast

section \<open>Constructed requests\<close>

lemma descriptor_set_Inr_iff:
  "(descriptor_set validate f v = Inr x) = (x = v \<and> (\<exists>e. validate f v = Inr (True, e)))"
  by (auto simp add: descriptor_set_def split: sum.splits prod.splits if_splits)

lemma and_then_Inr_iff: "(and_then m k = Inr y) = (\<exists>x. m = Inr x \<and> k x = Inr y)"
  by (cases m) (simp_all add: and_then_def)

lemma CharField_accepts:
  "CharField_validate f v = Inr (True, e) \<Longrightarrow>
     (v = PNone \<and> \<not> required f) \<or> is_str v \<and> (nullable f \<or> v \<noteq> PStr [])"
  by (auto simp add: CharField_validate_def split: if_splits)

lemma ArgumentsField_accepts: "ArgumentsField_validate f v = Inr (True, e) \<Longrightarrow> is_dict v"
  by (auto simp add: ArgumentsField_validate_def split: if_splits)

text \<open>
  The envelope that the constructor returns has strings for login, token and method, a dict for
  arguments and a string or nothing for the account.
\<close>

lemma MethodRequest_init_fields:
  assumes "MethodRequest_init request = Inr mr"
  shows "(account mr = PNone \<or> is_str (account mr)) \<and> is_str (login mr) \<and> is_str (token mr)
         \<and> is_str (method mr) \<and> is_dict (arguments mr)"
proof -
  from assms have
    ac: "\<exists>e. CharField_validate account_field (account mr) = Inr (True, e)" and
    lg: "\<exists>e. CharField_validate login_field (login mr) = Inr (True, e)" and
    tk: "\<exists>e. CharField_validate token_field (token mr) = Inr (True, e)" and
    ar: "\<exists>e. ArgumentsField_validate arguments_field (arguments mr) = Inr (True, e)" and
    mt: "\<exists>e. CharField_validate method_field (method mr) = Inr (True, e)"
    by (auto simp add: MethodRequest_init_def and_then_Inr_iff descriptor_set_Inr_iff
        split: pyval.splits)
  from ac have "account mr = PNone \<or> is_str (account mr)"
    by (auto dest: CharField_accepts)
  moreover from lg have "is_str (login mr)"
    by (auto dest!: CharField_accepts simp add: login_field_def)
  moreover from tk have "is_str (token mr)"
    by (auto dest!: CharField_accepts simp add: token_field_def)
  moreover from mt have "is_str (method mr)"
    by (auto dest!: CharField_accepts simp add: method_field_def)
  moreover from ar have "is_dict (arguments mr)"
    by (auto dest: ArgumentsField_accepts)
  ultimately show ?thesis by simp
qed

text \<open>On a constructed envelope \<open>check_auth\<close> returns; its \<^verbatim>\<open>TypeError\<close> cannot arise.\<close>

lemma check_auth_returns:
  assumes "MethodRequest_init request = Inr mr"
  shows "\<exists>b. check_auth H clk mr = Inr b"
  using MethodRequest_init_fields [OF assms]
  by (auto simp add: check_auth_def Let_def)

text \<open>What the other validators let through.\<close>

lemma PhoneField_accepts:
  "PhoneField_validate f v = Inr (True, e) \<Longrightarrow> truthy v \<and> (is_str v \<or> is_int v)"
  by (cases v) (auto simp add: PhoneField_validate_def Let_def split: if_splits)

lemma EmailField_accepts:
  "EmailField_validate f v = Inr (True, e) \<Longrightarrow> truthy v \<and> is_str v"
  by (cases v)
    (auto simp add: EmailField_validate_def CharField_validate_def Let_def split: if_splits)

lemma DateField_accepts:
  "DateField_validate f v = Inr (True, e) \<Longrightarrow> truthy v \<and> is_str v"
  by (cases v)
    (auto simp add: DateField_validate_def matches_date_pattern_def split: if_splits sum.splits)

lemma BirthDayField_accepts:
  "BirthDayField_validate clk f v = Inr (True, e) \<Longrightarrow> truthy v \<and> is_str v"
  by (auto simp add: BirthDayField_validate_def split: sum.splits prod.splits if_splits
      dest: DateField_accepts)

lemma GenderField_accepts:
  "GenderField_validate f v = Inr (True, e) \<Longrightarrow> is_int v"
  by (auto simp add: GenderField_validate_def split: if_splits)

lemma ClientIDsField_accepts:
  "ClientIDsField_validate f v = Inr (True, e) \<Longrightarrow> is_list v \<and> list_all is_int (items_of v)"
  by (auto simp add: ClientIDsField_validate_def split: if_splits)

text \<open>
  A score request that its constructor returns has a phone, an email and a birthday that are
  true in Python's sense, and an integer gender: none of the four can be left out. Its
  \<open>execute\<close> therefore finds the pair (phone, email) and never raises.
\<close>

lemma OnlineScoreRequest_init_fields:
  assumes "OnlineScoreRequest_init clk data = Inr r"
  shows "truthy (phone r) \<and> truthy (email r) \<and> truthy (birthday r) \<and> is_int (gender r)"
proof -
  from assms have
    ph: "\<exists>e. PhoneField_validate phone_field (phone r) = Inr (True, e)" and
    em: "\<exists>e. EmailField_validate email_field (email r) = Inr (True, e)" and
    bd: "\<exists>e. BirthDayField_validate clk birthday_field (birthday r) = Inr (True, e)" and
    gn: "\<exists>e. GenderField_validate gender_field (gender r) = Inr (True, e)"
    by (auto simp add: OnlineScoreRequest_init_def and_then_Inr_iff descriptor_set_Inr_iff
        split: pyval.splits)
  from ph em bd gn show ?thesis
    by (auto dest: PhoneField_accepts EmailField_accepts BirthDayField_accepts GenderField_accepts)
qed


lemma OnlineScoreRequest_init_needs:
  assumes "OnlineScoreRequest_init clk (PDict d) = Inr r"
  shows "map_of d ''phone'' \<noteq> None \<and> map_of d ''email'' \<noteq> None
         \<and> map_of d ''birthday'' \<noteq> None \<and> map_of d ''gender'' \<noteq> None"
proof -
  from assms have eqs: "phone r = dict_get d ''phone''" "email r = dict_get d ''email''"
      "birthday r = dict_get d ''birthday''" "gender r = dict_get d ''gender''"
    by (auto simp add: OnlineScoreRequest_init_def and_then_Inr_iff descriptor_set_Inr_iff)
  from OnlineScoreRequest_init_fields [OF assms] eqs show ?thesis
    by (auto simp add: dict_get_def split: option.splits)
qed

text \<open>An interests request is constructed only from arguments that hold a date.\<close>

lemma ClientsInterestsRequest_init_needs:
  assumes "ClientsInterestsRequest_init (PDict d) = Inr r"
  shows "map_of d ''client_ids'' \<noteq> None \<and> map_of d ''date'' \<noteq> None"
proof -
  from assms have
    ids: "\<exists>e. ClientIDsField_validate client_ids_field (dict_get d ''client_ids'')
               = Inr (True, e)" and
    dt: "\<exists>e. DateField_validate date_field (dict_get d ''date'') = Inr (True, e)"
    by (auto simp add: ClientsInterestsRequest_init_def and_then_Inr_iff descriptor_set_Inr_iff)
  from ids have "is_list (dict_get d ''client_ids'')"
    by (auto dest: ClientIDsField_accepts)
  moreover from dt have "is_str (dict_get d ''date'')"
    by (auto dest: DateField_accepts)
  ultimately show ?thesis
    by (auto simp add: dict_get_def split: option.splits)
qed

section \<open>The scoring engine\<close>

lemma get_score_sum:
  "get_score ph em bd gn fname lname =
     (if truthy ph then 3 / 2 else 0) + (if truthy em then 3 / 2 else 0)
     + (if truthy bd \<and> truthy gn then 3 / 2 else 0)
     + (if truthy fname \<and> truthy lname then 1 / 2 else 0)"
  by (simp add: get_score_def Let_def)

text \<open>
  C1, as the code has it. \<open>get_score\<close> is the sum of four contributions: 1.5 for the
  phone and 1.5 for the email, each on its own, 1.5 for birthday and gender together and 0.5
  for the two names together. A field counts when it is true in Python's sense, that is present
  and neither an empty string nor 0; a phone, an email and a birthday that pass the validation
  of their field always are. So the score is 0.5 when only first and last name are given (both
  non-empty), 3.0 when only phone and email count, and 5.0 when all six count.
\<close>

theorem get_score_values:
  "get_score ph em bd gn fname lname =
       (if truthy ph then 3 / 2 else 0) + (if truthy em then 3 / 2 else 0)
       + (if truthy bd \<and> truthy gn then 3 / 2 else 0)
       + (if truthy fname \<and> truthy lname then 1 / 2 else 0)
   \<and> (PhoneField_validate pf ph = Inr (True, None) \<longrightarrow> truthy ph)
   \<and> (EmailField_validate ef em = Inr (True, None) \<longrightarrow> truthy em)
   \<and> (BirthDayField_validate clk bf bd = Inr (True, None) \<longrightarrow> truthy bd)
   \<and> (truthy fname \<and> truthy lname \<longrightarrow> get_score PNone PNone PNone PNone fname lname = 1 / 2)
   \<and> (truthy ph \<and> truthy em \<longrightarrow> get_score ph em PNone PNone PNone PNone = 3)
   \<and> (truthy ph \<and> truthy em \<and> truthy bd \<and> truthy gn \<and> truthy fname \<and> truthy lname
        \<longrightarrow> get_score ph em bd gn fname lname = 5)"
  using PhoneField_accepts [of pf ph None] EmailField_accepts [of ef em None]
    BirthDayField_accepts [of clk bf bd None]
  by (simp add: get_score_sum)

text \<open>
  C1 at a customer with a phone given as integer: the three totals, and a phone, an email and
  a birthday alone.
\<close>

theorem get_score_values_witness:
  "get_score PNone PNone PNone PNone (PStr ''Stanislav'') (PStr ''Stupnikov'') = 1 / 2
   \<and> get_score (PInt 79175002040) (PStr ''stupnikov@otus.ru'') PNone PNone PNone PNone = 3
   \<and> get_score (PInt 79175002040) (PStr ''stupnikov@otus.ru'') (PStr ''01.01.2000'') (PInt 1)
         (PStr ''Stanislav'') (PStr ''Stupnikov'') = 5
   \<and> get_score (PInt 79175002040) PNone PNone PNone PNone PNone = 3 / 2
   \<and> get_score PNone (PStr ''stupnikov@otus.ru'') PNone PNone PNone PNone = 3 / 2
   \<and> get_score PNone PNone (PStr ''01.01.2000'') PNone PNone PNone = 0
   \<and> truthy (PInt 79175002040) \<and> truthy (PStr ''stupnikov@otus.ru'')
   \<and> truthy (PStr ''01.01.2000'')"
proof -
  let ?clk = "\<lparr>now = \<lparr>year = 2026, month = 11, day = 3, hour = 15\<rparr>,
              utcnow = \<lparr>year = 2026, month = 11, day = 3, hour = 12\<rparr>\<rparr>"
  have ph: "PhoneField_validate phone_field (PInt 79175002040) = Inr (True, None)"
    by (simp add: validate_defs field_defs)
  have em: "EmailField_validate email_field (PStr ''stupnikov@otus.ru'') = Inr (True, None)"
    by (simp add: validate_defs field_defs)
  have bd: "BirthDayField_validate ?clk birthday_field (PStr ''01.01.2000'') = Inr (True, None)"
    by (simp add: validate_defs field_defs strptime_defs)
  show ?thesis
    using ph em bd
      get_score_values [of "PInt 79175002040" "PStr ''stupnikov@otus.ru''" "PStr ''01.01.2000''"
        "PInt 1" "PStr ''Stanislav''" "PStr ''Stupnikov''" phone_field email_field ?clk
        birthday_field]
      get_score_values [of "PInt 79175002040" PNone PNone PNone PNone PNone]
      get_score_values [of PNone "PStr ''stupnikov@otus.ru''" PNone PNone PNone PNone]
      get_score_values [of PNone PNone "PStr ''01.01.2000''" PNone PNone PNone]
    by simp
qed

text \<open>
  C1 as stated fails: with only phone and email the score is 3.0, not 1.5, and with all six
  fields it is 5.0, not 3.5.
\<close>

theorem get_score_phone_email_counterexample:
  "get_score (PInt 79175002040) (PStr ''stupnikov@otus.ru'') PNone PNone PNone PNone = 3
   \<and> get_score (PInt 79175002040) (PStr ''stupnikov@otus.ru'') PNone PNone PNone PNone \<noteq> 3 / 2
   \<and> get_score (PInt 79175002040) (PStr ''stupnikov@otus.ru'') (PStr ''01.01.2000'') (PInt 1)
         (PStr ''Stanislav'') (PStr ''Stupnikov'') \<noteq> 7 / 2"
  by (simp add: get_score_sum)

text \<open>
  C10. A gender of 0 counts for nothing: \<open>get_score\<close> gives the same score as with no
  gender at all, which is the sum of the other contributions without the birthday and gender
  bonus; \<open>OnlineScoreRequest.validate\<close> gives the same answer as with no gender, which is
  whether one of the other two pairs is there; and so \<open>execute\<close> does the same in both
  cases. This holds for every value of the other fields, a valid birthday included.
\<close>

theorem gender_zero_as_absent:
  "get_score ph em bd (PInt 0) fname lname = get_score ph em bd PNone fname lname
   \<and> get_score ph em bd (PInt 0) fname lname =
       (if truthy ph then 3 / 2 else 0) + (if truthy em then 3 / 2 else 0)
       + (if truthy fname \<and> truthy lname then 1 / 2 else 0)
   \<and> OnlineScoreRequest_validate (r\<lparr>gender := PInt 0\<rparr>)
       = OnlineScoreRequest_validate (r\<lparr>gender := PNone\<rparr>)
   \<and> OnlineScoreRequest_validate (r\<lparr>gender := PInt 0\<rparr>)
       = (truthy (phone r) \<and> truthy (email r) \<or> truthy (first_name r) \<and> truthy (last_name r))
   \<and> OnlineScoreRequest_execute (r\<lparr>gender := PInt 0\<rparr>)
       = OnlineScoreRequest_execute (r\<lparr>gender := PNone\<rparr>)"
  by (simp add: get_score_sum OnlineScoreRequest_validate_def OnlineScoreRequest_execute_def)

text \<open>C10 at a request with a valid birthday, gender 0 and nothing else.\<close>

theorem gender_zero_as_absent_witness:
  "get_score PNone PNone (PStr ''01.01.2000'') (PInt 0) PNone PNone = 0
   \<and> \<not> OnlineScoreRequest_validate
         \<lparr>phone = PNone, email = PNone, first_name = PNone, last_name = PNone,
          birthday = PStr ''01.01.2000'', gender = PInt 0\<rparr>"
  using gender_zero_as_absent [of PNone PNone "PStr ''01.01.2000''" PNone PNone
      "\<lparr>phone = PNone, email = PNone, first_name = PNone, last_name = PNone,
        birthday = PStr ''01.01.2000'', gender = PNone\<rparr>"]
  by auto

section \<open>The cross-field check of the score request\<close>

text \<open>
  \<open>validate\<close> tests the truth values of the fields: \<open>execute\<close> raises exactly when no
  pair has two members that are true in Python's sense, and returns the score otherwise.
\<close>

lemma execute_by_truthy_pairs:
  "OnlineScoreRequest_execute r =
     (if truthy (phone r) \<and> truthy (email r) \<or> truthy (first_name r) \<and> truthy (last_name r)
         \<or> truthy (gender r) \<and> truthy (birthday r)
      then Inr (PDict [(''score'',
             PFloat (get_score (phone r) (email r) (birthday r) (gender r)
                       (first_name r) (last_name r)))])
      else Inl (ValueError ''Invalid arguments''))"
  by (simp add: OnlineScoreRequest_execute_def OnlineScoreRequest_validate_def)



section \<open>Field validation\<close>

text \<open>
  C8. For any phone field (whatever its flags): an integer from 70000000000 to 79999999999
  is accepted, and so is a string of 11 digits that starts with 7; an integer outside the range
  is refused, and so is a string of 10 or of 12 characters. An integer is accepted exactly when
  it lies in the range, a string exactly when it starts with \<^verbatim>\<open>7\<close> and has length 11.
\<close>

theorem phone_validation:
  "(70000000000 \<le> n \<and> n \<le> 79999999999 \<longrightarrow> PhoneField_validate f (PInt n) = Inr (True, None))
   \<and> (length s = 11 \<and> list_all is_digit s \<and> hd s = CHR ''7''
        \<longrightarrow> PhoneField_validate f (PStr s) = Inr (True, None))
   \<and> (n' < 70000000000 \<or> 79999999999 < n'
        \<longrightarrow> (\<exists>msg. PhoneField_validate f (PInt n') = Inr (False, Some msg)))
   \<and> (length s' = 10 \<or> length s' = 12
        \<longrightarrow> (\<exists>msg. PhoneField_validate f (PStr s') = Inr (False, Some msg)))
   \<and> ((PhoneField_validate f (PInt n) = Inr (True, None))
        = (70000000000 \<le> n \<and> n \<le> 79999999999))
   \<and> ((PhoneField_validate f (PStr s) = Inr (True, None)) = (take 1 s = ''7'' \<and> length s = 11))"
proof -
  have starts: "take 1 s = ''7''" if "length s = 11" "hd s = CHR ''7''"
    using that by (cases s) auto
  show ?thesis
    using starts by (auto simp add: PhoneField_validate_def Let_def)
qed

text \<open>
  C8 on the phone field of the score request: a number as integer and as string, a
  ten-digit integer, and strings of ten and of twelve digits.
\<close>

theorem phone_validation_witness:
  "PhoneField_validate phone_field (PInt 79175002040) = Inr (True, None)
   \<and> PhoneField_validate phone_field (PStr ''79175002040'') = Inr (True, None)
   \<and> (\<exists>msg. PhoneField_validate phone_field (PInt 7917500204) = Inr (False, Some msg))
   \<and> (\<exists>msg. PhoneField_validate phone_field (PStr ''7917500204'') = Inr (False, Some msg))
   \<and> (\<exists>msg. PhoneField_validate phone_field (PInt 791750020400) = Inr (False, Some msg))
   \<and> (\<exists>msg. PhoneField_validate phone_field (PStr ''791750020400'') = Inr (False, Some msg))"
  using
    phone_validation [of 79175002040 phone_field "''79175002040''" 7917500204 "''7917500204''"]
    phone_validation [of 79175002040 phone_field "''79175002040''" 791750020400 "''791750020400''"]
  by (simp add: is_digit_def)

text \<open>
  C7 fails on the code at its own example. \<^verbatim>\<open>30.02.2000\<close> matches the pattern, and then
  \<^verbatim>\<open>datetime.strptime\<close> raises \<^verbatim>\<open>ValueError\<close>, which \<^verbatim>\<open>DateField.validate\<close>
  does not catch: the date is refused by an exception and not by a pair
  \<^verbatim>\<open>(False, message)\<close>. This is so for every date field, whatever its flags.
\<close>

theorem date_validate_raises:
  "DateField_validate f (PStr ''30.02.2000'') = Inl (ValueError ''day is out of range for month'')"
  by (simp add: validate_defs strptime_defs)

text \<open>C7's example on the date field of the interests request.\<close>

theorem date_validate_raises_witness:
  "DateField_validate date_field (PStr ''30.02.2000'')
     = Inl (ValueError ''day is out of range for month'')"
  using date_validate_raises [of date_field] by simp

text \<open>
  C2 fails on the code. \<^verbatim>\<open>CharField.validate\<close> accepts \<^verbatim>\<open>None\<close> for a field that is not
  required, but the validators of date, phone, email, birthday and gender have no such case. So
  the interests request with a valid list of clients and no date is refused, and the score
  request with only the two names is refused at its absent phone.
\<close>

theorem absent_optional_field_refused:
  "ClientsInterestsRequest_init (PDict [(''client_ids'', PList [PInt 1, PInt 2, PInt 3])])
     = Inl (ValueError ''Invalid field value for date: date must be a valid date'')
   \<and> OnlineScoreRequest_init clk
         (PDict [(''first_name'', PStr ''Stanislav''), (''last_name'', PStr ''Stupnikov'')])
     = Inl (ValueError ''Invalid field value for phone: phone must be a string or an integer'')
   \<and> DateField_validate date_field PNone = Inr (False, Some ''date must be a valid date'')
   \<and> PhoneField_validate phone_field PNone
     = Inr (False, Some ''phone must be a string or an integer'')
   \<and> EmailField_validate email_field PNone = Inr (False, Some ''email must be a valid email'')
   \<and> BirthDayField_validate clk birthday_field PNone
     = Inr (False, Some ''birthday must be a valid date'')
   \<and> GenderField_validate gender_field PNone = Inr (False, Some ''gender must be an integer'')
   \<and> CharField_validate first_name_field PNone = Inr (True, None)"
  by (simp add: init_defs field_defs validate_defs)

text \<open>C2's two requests on 3 November 2026.\<close>

theorem absent_optional_field_refused_witness:
  "ClientsInterestsRequest_init (PDict [(''client_ids'', PList [PInt 1, PInt 2, PInt 3])])
     = Inl (ValueError ''Invalid field value for date: date must be a valid date'')
   \<and> OnlineScoreRequest_init
         \<lparr>now = \<lparr>year = 2026, month = 11, day = 3, hour = 15\<rparr>,
          utcnow = \<lparr>year = 2026, month = 11, day = 3, hour = 12\<rparr>\<rparr>
         (PDict [(''first_name'', PStr ''Stanislav''), (''last_name'', PStr ''Stupnikov'')])
     = Inl (ValueError ''Invalid field value for phone: phone must be a string or an integer'')"
  using absent_optional_field_refused [of
      "\<lparr>now = \<lparr>year = 2026, month = 11, day = 3, hour = 15\<rparr>,
        utcnow = \<lparr>year = 2026, month = 11, day = 3, hour = 12\<rparr>\<rparr>"]
  by simp

section \<open>Authentication\<close>

text \<open>The hour is written as ten decimal digits.\<close>

lemma strftime_YmdH_digits:
  "length (strftime_YmdH t) = 10 \<and> list_all is_digit (strftime_YmdH t)"
proof -
  have "is_digit (digit_char n)" for n
  proof -
    have "''0123456789'' ! (n mod 10) \<in> set ''0123456789''"
      by (rule nth_mem) simp
    then show ?thesis
      by (simp only: digit_char_def is_digit_def)
  qed
  then show ?thesis
    by (simp add: strftime_YmdH_def four_digits_def two_digits_def)
qed

text \<open>
  C4, as the code has it. For every digest function \<open>H\<close> and every constructed envelope,
  \<open>check_auth\<close> returns whether the token is the digest of: for the login
  \<^verbatim>\<open>admin\<close>, the hour of the local clock (\<^verbatim>\<open>datetime.now()\<close>) as \<^verbatim>\<open>YYYYMMDDHH\<close>
  followed by the admin salt \<^verbatim>\<open>42\<close>; otherwise the account (or the empty string),
  the login and the salt \<^verbatim>\<open>Otus\<close>.
\<close>

theorem check_auth_digest:
  assumes "MethodRequest_init request = Inr mr"
  shows "check_auth H clk mr =
     Inr (token mr =
          PStr (H (if login mr = PStr ''admin''
                   then four_digits (year (now clk)) @ two_digits (month (now clk))
                        @ two_digits (day (now clk)) @ two_digits (hour (now clk)) @ ''42''
                   else (case account mr of PStr a \<Rightarrow> a | _ \<Rightarrow> [])
                        @ text_of (login mr) @ ''Otus'')))"
  using MethodRequest_init_fields [OF assms]
  by (cases "account mr")
    (auto simp add: check_auth_def Let_def is_admin_def ADMIN_LOGIN_def ADMIN_SALT_def SALT_def
      strftime_YmdH_def)

text \<open>
  C4 with SHA-512 at 15 o'clock local time on 3 November 2026: the admin with the digest of
  \<^verbatim>\<open>202611031542\<close> is let in, and a user with an empty token is not.
\<close>

theorem check_auth_digest_witness:
  "check_auth sha512_hexdigest
     \<lparr>now = \<lparr>year = 2026, month = 11, day = 3, hour = 15\<rparr>,
      utcnow = \<lparr>year = 2026, month = 11, day = 3, hour = 12\<rparr>\<rparr>
     \<lparr>account = PNone, login = PStr ''admin'', method = PStr ''online_score'',
      token = PStr ''657ee265a614cc1ad869e30a3073036844806d676b401b414188092a8f01b9da395010426045dc8da8b64fb232cd7883560e47b5c748a0d1ee0f80267e546661'',
      arguments = PDict []\<rparr>
     = Inr True
   \<and> check_auth sha512_hexdigest
       \<lparr>now = \<lparr>year = 2026, month = 11, day = 3, hour = 15\<rparr>,
        utcnow = \<lparr>year = 2026, month = 11, day = 3, hour = 12\<rparr>\<rparr>
       \<lparr>account = PStr ''horns&hoofs'', login = PStr ''h&f'', method = PStr ''online_score'',
        token = PStr [], arguments = PDict []\<rparr>
     = Inr False"
proof -
  let ?clk = "\<lparr>now = \<lparr>year = 2026, month = 11, day = 3, hour = 15\<rparr>,
              utcnow = \<lparr>year = 2026, month = 11, day = 3, hour = 12\<rparr>\<rparr>"
  have admin: "MethodRequest_init
      [(''body'', PDict [(''login'', PStr ''admin''), (''method'', PStr ''online_score''),
         (''token'', PStr ''657ee265a614cc1ad869e30a3073036844806d676b401b414188092a8f01b9da395010426045dc8da8b64fb232cd7883560e47b5c748a0d1ee0f80267e546661''),
         (''arguments'', PDict [])])]
      = Inr \<lparr>account = PNone, login = PStr ''admin'', method = PStr ''online_score'',
             token = PStr ''657ee265a614cc1ad869e30a3073036844806d676b401b414188092a8f01b9da395010426045dc8da8b64fb232cd7883560e47b5c748a0d1ee0f80267e546661'',
             arguments = PDict []\<rparr>"
    by (simp add: init_defs field_defs validate_defs)
  have user: "MethodRequest_init
      [(''body'', PDict [(''account'', PStr ''horns&hoofs''), (''login'', PStr ''h&f''),
         (''method'', PStr ''online_score''), (''token'', PStr []), (''arguments'', PDict [])])]
      = Inr \<lparr>account = PStr ''horns&hoofs'', login = PStr ''h&f'', method = PStr ''online_score'',
             token = PStr [], arguments = PDict []\<rparr>"
    by (simp add: init_defs field_defs validate_defs)
  have empty: "[] \<noteq> sha512_hexdigest s" for s
    using sha512_hexdigest_not_empty [of s] by auto
  show ?thesis
    using check_auth_digest [OF admin, of sha512_hexdigest ?clk]
      check_auth_digest [OF user, of sha512_hexdigest ?clk]
    by (simp add: four_digits_def two_digits_def digit_char_def sha512_hexdigest_hour_15 empty)
qed

text \<open>
  C4 as stated fails where the local clock is not on UTC. At 15 o'clock local time, 12 o'clock
  UTC, an admin whose token is the SHA-512 digest of the UTC hour \<^verbatim>\<open>2026110312\<close> and the
  admin salt passes the envelope's validation and is turned away.
\<close>

theorem check_auth_utc_counterexample:
  "MethodRequest_init
     [(''body'', PDict [(''login'', PStr ''admin''), (''method'', PStr ''online_score''),
        (''token'', PStr ''bd459496f45bd951ed0e928bf67efa6219882b315972f3f7df969b3e0fc266099668d36c72ee0ae6d1f81ac96bef5f887c042a7194c3f8be7ca3cb5330756cb7''),
        (''arguments'', PDict [])])]
     = Inr \<lparr>account = PNone, login = PStr ''admin'', method = PStr ''online_score'',
            token = PStr ''bd459496f45bd951ed0e928bf67efa6219882b315972f3f7df969b3e0fc266099668d36c72ee0ae6d1f81ac96bef5f887c042a7194c3f8be7ca3cb5330756cb7'',
            arguments = PDict []\<rparr>
   \<and> sha512_hexdigest
         (strftime_YmdH
            (utcnow \<lparr>now = \<lparr>year = 2026, month = 11, day = 3, hour = 15\<rparr>,
                     utcnow = \<lparr>year = 2026, month = 11, day = 3, hour = 12\<rparr>\<rparr>)
          @ ADMIN_SALT)
     = ''bd459496f45bd951ed0e928bf67efa6219882b315972f3f7df969b3e0fc266099668d36c72ee0ae6d1f81ac96bef5f887c042a7194c3f8be7ca3cb5330756cb7''
   \<and> check_auth sha512_hexdigest
       \<lparr>now = \<lparr>year = 2026, month = 11, day = 3, hour = 15\<rparr>,
        utcnow = \<lparr>year = 2026, month = 11, day = 3, hour = 12\<rparr>\<rparr>
       \<lparr>account = PNone, login = PStr ''admin'', method = PStr ''online_score'',
        token = PStr ''bd459496f45bd951ed0e928bf67efa6219882b315972f3f7df969b3e0fc266099668d36c72ee0ae6d1f81ac96bef5f887c042a7194c3f8be7ca3cb5330756cb7'',
        arguments = PDict []\<rparr>
     = Inr False"
  by (simp add: init_defs field_defs validate_defs check_auth_def is_admin_def ADMIN_LOGIN_def
      ADMIN_SALT_def strftime_defs sha512_hexdigest_hour_15 sha512_hexdigest_hour_12)

section \<open>The dispatcher\<close>

text \<open>
  C6. Whenever the envelope is constructed and \<open>check_auth\<close> returns false, the handler
  returns \<^verbatim>\<open>("Forbidden", 403)\<close> and leaves the context and the generator as they were:
  the method name and the arguments are not looked at, whatever they are.
\<close>

theorem forbidden_before_routing:
  "MethodRequest_init request = Inr mr \<Longrightarrow> check_auth H clk mr = Inr False \<Longrightarrow>
     method_handler H clk request c g = (Inr (Message ''Forbidden'', 403), c, g)"
  by (simp add: method_handler_def FORBIDDEN_def)

text \<open>
  C6 with SHA-512 at a user with an empty token, an unknown method and arguments that no
  method would accept.
\<close>

theorem forbidden_before_routing_witness:
  "method_handler sha512_hexdigest
     \<lparr>now = \<lparr>year = 2026, month = 11, day = 3, hour = 15\<rparr>,
      utcnow = \<lparr>year = 2026, month = 11, day = 3, hour = 12\<rparr>\<rparr>
     [(''body'', PDict [(''account'', PStr ''horns&hoofs''), (''login'', PStr ''h&f''),
        (''method'', PStr ''no_such_method''), (''token'', PStr []),
        (''arguments'', PDict [(''phone'', PInt 1), (''client_ids'', PStr ''x'')])])]
     Map.empty (\<lambda>i. 0)
   = (Inr (Message ''Forbidden'', 403), Map.empty, (\<lambda>i. 0))"
proof -
  have init: "MethodRequest_init
      [(''body'', PDict [(''account'', PStr ''horns&hoofs''), (''login'', PStr ''h&f''),
         (''method'', PStr ''no_such_method''), (''token'', PStr []),
         (''arguments'', PDict [(''phone'', PInt 1), (''client_ids'', PStr ''x'')])])]
      = Inr \<lparr>account = PStr ''horns&hoofs'', login = PStr ''h&f'',
             method = PStr ''no_such_method'', token = PStr [],
             arguments = PDict [(''phone'', PInt 1), (''client_ids'', PStr ''x'')]\<rparr>"
    by (simp add: init_defs field_defs validate_defs)
  have auth: "check_auth sha512_hexdigest clk
      \<lparr>account = PStr ''horns&hoofs'', login = PStr ''h&f'', method = PStr ''no_such_method'',
       token = PStr [], arguments = PDict [(''phone'', PInt 1), (''client_ids'', PStr ''x'')]\<rparr>
      = Inr False" for clk
    by (simp add: check_auth_def is_admin_def ADMIN_LOGIN_def Let_def sha512_hexdigest_not_empty)
  show ?thesis
    by (rule forbidden_before_routing [OF init auth])
qed

text \<open>
  C5 fails on the code. Whenever an authenticated caller, admin or not, asks for
  \<^verbatim>\<open>online_score\<close> with arguments that pass the validation of every field, the handler
  reaches \<^verbatim>\<open>argument_request.get_fields()\<close> before its \<^verbatim>\<open>is_admin\<close> test; the
  request class has no such method, so the call raises \<^verbatim>\<open>AttributeError\<close>, which the
  handler's \<^verbatim>\<open>except ValueError\<close> does not catch. No payload and no status are returned,
  and the context is left as it was.
\<close>

theorem online_score_raises:
  "MethodRequest_init request = Inr mr \<Longrightarrow> check_auth H clk mr = Inr True \<Longrightarrow>
   method mr = PStr ''online_score'' \<Longrightarrow> OnlineScoreRequest_init clk (arguments mr) = Inr ar \<Longrightarrow>
     method_handler H clk request c g
       = (Inl (AttributeError ''object has no attribute 'get_fields' ''), c, g)"
  by (simp add: method_handler_def get_fields_def except_ValueError_def)

text \<open>
  C5 at an admin with the SHA-512 token of the hour, all six arguments valid, an empty context
  and a generator of zeros.
\<close>

theorem online_score_raises_witness:
  "is_admin
     \<lparr>account = PStr ''horns&hoofs'', login = PStr ''admin'', method = PStr ''online_score'',
      token = PStr ''657ee265a614cc1ad869e30a3073036844806d676b401b414188092a8f01b9da395010426045dc8da8b64fb232cd7883560e47b5c748a0d1ee0f80267e546661'',
      arguments = PDict [(''phone'', PStr ''79175002040''),
        (''email'', PStr ''stupnikov@otus.ru''), (''first_name'', PStr ''Stanislav''),
        (''last_name'', PStr ''Stupnikov''), (''birthday'', PStr ''01.01.2000''),
        (''gender'', PInt 1)]\<rparr>
   \<and> method_handler sha512_hexdigest
     \<lparr>now = \<lparr>year = 2026, month = 11, day = 3, hour = 15\<rparr>,
      utcnow = \<lparr>year = 2026, month = 11, day = 3, hour = 12\<rparr>\<rparr>
     [(''body'', PDict [(''account'', PStr ''horns&hoofs''), (''login'', PStr ''admin''),
        (''method'', PStr ''online_score''),
        (''token'', PStr ''657ee265a614cc1ad869e30a3073036844806d676b401b414188092a8f01b9da395010426045dc8da8b64fb232cd7883560e47b5c748a0d1ee0f80267e546661''),
        (''arguments'', PDict [(''phone'', PStr ''79175002040''),
           (''email'', PStr ''stupnikov@otus.ru''), (''first_name'', PStr ''Stanislav''),
           (''last_name'', PStr ''Stupnikov''), (''birthday'', PStr ''01.01.2000''),
           (''gender'', PInt 1)])])]
     Map.empty (\<lambda>i. 0)
   = (Inl (AttributeError ''object has no attribute 'get_fields' ''), Map.empty, (\<lambda>i. 0))"
proof -
  let ?clk = "\<lparr>now = \<lparr>year = 2026, month = 11, day = 3, hour = 15\<rparr>,
              utcnow = \<lparr>year = 2026, month = 11, day = 3, hour = 12\<rparr>\<rparr>"
  let ?args = "PDict [(''phone'', PStr ''79175002040''),
        (''email'', PStr ''stupnikov@otus.ru''), (''first_name'', PStr ''Stanislav''),
        (''last_name'', PStr ''Stupnikov''), (''birthday'', PStr ''01.01.2000''),
        (''gender'', PInt 1)]"
  let ?mr = "\<lparr>account = PStr ''horns&hoofs'', login = PStr ''admin'',
      method = PStr ''online_score'',
      token = PStr ''657ee265a614cc1ad869e30a3073036844806d676b401b414188092a8f01b9da395010426045dc8da8b64fb232cd7883560e47b5c748a0d1ee0f80267e546661'',
      arguments = ?args\<rparr>"
  have init: "MethodRequest_init
      [(''body'', PDict [(''account'', PStr ''horns&hoofs''), (''login'', PStr ''admin''),
         (''method'', PStr ''online_score''),
         (''token'', PStr ''657ee265a614cc1ad869e30a3073036844806d676b401b414188092a8f01b9da395010426045dc8da8b64fb232cd7883560e47b5c748a0d1ee0f80267e546661''),
         (''arguments'', ?args)])]
      = Inr ?mr"
    by (simp add: init_defs field_defs validate_defs)
  have auth: "check_auth sha512_hexdigest ?clk ?mr = Inr True"
    by (simp add: check_auth_def is_admin_def ADMIN_LOGIN_def ADMIN_SALT_def strftime_defs
        sha512_hexdigest_hour_15)
  have meth: "method ?mr = PStr ''online_score''"
    by simp
  have args: "OnlineScoreRequest_init ?clk (arguments ?mr)
      = Inr \<lparr>phone = PStr ''79175002040'', email = PStr ''stupnikov@otus.ru'',
             first_name = PStr ''Stanislav'', last_name = PStr ''Stupnikov'',
             birthday = PStr ''01.01.2000'', gender = PInt 1\<rparr>"
    by (simp add: init_defs field_defs validate_defs strptime_defs)
  have admin: "is_admin ?mr"
    by (simp add: is_admin_def ADMIN_LOGIN_def)
  show ?thesis
    using admin online_score_raises [OF init auth meth args, of Map.empty "\<lambda>i. 0"]
    by simp
qed

section \<open>Sampling interests\<close>

lemma sample_pool_Suc:
  "sample_pool (Suc k) m pool g =
     (pool ! (g 0 mod m)
        # fst (sample_pool k (m - 1) (pool[g 0 mod m := pool ! (m - 1)]) (\<lambda>i. g (Suc i))),
      snd (sample_pool k (m - 1) (pool[g 0 mod m := pool ! (m - 1)]) (\<lambda>i. g (Suc i))))"
  by (simp add: randbelow_def Let_def split: prod.splits)

text \<open>
  Drawing \<open>k\<close> items from the first \<open>m\<close> slots of a pool whose first \<open>m\<close> items are all
  different gives \<open>k\<close> different items of those, whatever the generator yields: the slot
  just drawn is refilled with the last item left, so the slots left hold what was not drawn.
\<close>

lemma sample_pool_distinct:
  "k \<le> m \<Longrightarrow> m \<le> length pool \<Longrightarrow> inj_on (nth pool) {..<m} \<Longrightarrow>
     length (fst (sample_pool k m pool g)) = k
     \<and> distinct (fst (sample_pool k m pool g))
     \<and> set (fst (sample_pool k m pool g)) \<subseteq> nth pool ` {..<m}"
proof (induction k arbitrary: m pool g)
  case 0
  then show ?case by simp
next
  case (Suc k)
  define j where "j = g 0 mod m"
  define pool' where "pool' = pool[j := pool ! (m - 1)]"
  define g' where "g' = (\<lambda>i. g (Suc i))"
  from Suc.prems have m: "0 < m" by simp
  then have j: "j < m" by (simp add: j_def)
  have nth': "pool' ! i = pool ! (if i = j then m - 1 else i)" if "i < m - 1" for i
    using that Suc.prems(2) by (simp add: pool'_def nth_list_update)
  have inj': "inj_on (nth pool') {..<m - 1}"
  proof (rule inj_onI)
    fix a b
    assume a: "a \<in> {..<m - 1}" and b: "b \<in> {..<m - 1}" and eq: "pool' ! a = pool' ! b"
    define a' where "a' = (if a = j then m - 1 else a)"
    define b' where "b' = (if b = j then m - 1 else b)"
    from a b eq have "pool ! a' = pool ! b'"
      by (simp add: nth' a'_def b'_def)
    moreover have "a' \<in> {..<m}" "b' \<in> {..<m}"
      using a b m by (auto simp add: a'_def b'_def)
    ultimately have "a' = b'"
      by (rule inj_onD [OF Suc.prems(3)])
    then show "a = b"
      using a b by (auto simp add: a'_def b'_def split: if_splits)
  qed
  have img: "nth pool' ` {..<m - 1} \<subseteq> nth pool ` {..<m} - {pool ! j}"
  proof
    fix x
    assume "x \<in> nth pool' ` {..<m - 1}"
    then obtain i where i: "i < m - 1" and x: "x = pool' ! i" by auto
    define i' where "i' = (if i = j then m - 1 else i)"
    have xi: "x = pool ! i'" using i x by (simp add: nth' i'_def)
    have lt: "i' < m" using i by (auto simp add: i'_def)
    have ne: "i' \<noteq> j" using i by (auto simp add: i'_def)
    have "pool ! i' \<noteq> pool ! j"
      using Suc.prems(3) lt j ne by (auto dest: inj_onD)
    with xi lt show "x \<in> nth pool ` {..<m} - {pool ! j}" by auto
  qed
  have IH: "length (fst (sample_pool k (m - 1) pool' g')) = k
     \<and> distinct (fst (sample_pool k (m - 1) pool' g'))
     \<and> set (fst (sample_pool k (m - 1) pool' g')) \<subseteq> nth pool' ` {..<m - 1}"
    using Suc.prems inj' by (intro Suc.IH) (simp_all add: pool'_def)
  have eq: "fst (sample_pool (Suc k) m pool g) = pool ! j # fst (sample_pool k (m - 1) pool' g')"
    by (simp only: sample_pool_Suc fst_conv j_def pool'_def g'_def)
  from IH img have sub:
    "set (fst (sample_pool k (m - 1) pool' g')) \<subseteq> nth pool ` {..<m} - {pool ! j}"
    by blast
  have "pool ! j \<in> nth pool ` {..<m}"
    using j by simp
  with IH sub show ?case
    unfolding eq by auto
qed

lemma interests_distinct: "distinct interests \<and> length interests = 11"
  by (simp add: interests_def)

lemma get_interests_two_distinct:
  "length (fst (get_interests cid g)) = 2 \<and> distinct (fst (get_interests cid g))
   \<and> set (fst (get_interests cid g)) \<subseteq> set interests"
proof -
  have inj: "inj_on (nth interests) {..<length interests}"
    using interests_distinct by (simp add: inj_on_nth)
  have "length (fst (sample_pool 2 (length interests) interests g)) = 2
     \<and> distinct (fst (sample_pool 2 (length interests) interests g))
     \<and> set (fst (sample_pool 2 (length interests) interests g))
         \<subseteq> nth interests ` {..<length interests}"
    by (rule sample_pool_distinct) (use inj interests_distinct in simp_all)
  moreover have "nth interests ` {..<length interests} = set interests"
    by (auto simp add: set_conv_nth)
  ultimately show ?thesis
    by (simp add: get_interests_def random_sample_def)
qed

text \<open>
  C9. For the client list \<^verbatim>\<open>[1, 2, 3]\<close> (and any date) and every generator \<open>g\<close>, that is
  every outcome of the sampling, the mapping that \<open>execute\<close> returns has exactly the keys 1,
  2 and 3, and each value is a list of 2 different tags of the vocabulary, which has 11
  different tags.
\<close>

theorem clients_interests_123:
  assumes "m = fst (ClientsInterestsRequest_execute
                      \<lparr>client_ids = PList [PInt 1, PInt 2, PInt 3], date = d\<rparr> g)"
  shows "map fst m = [PInt 1, PInt 2, PInt 3]
     \<and> (\<forall>kv \<in> set m. length (snd kv) = 2 \<and> distinct (snd kv) \<and> set (snd kv) \<subseteq> set interests)
     \<and> length interests = 11 \<and> distinct interests"
proof -
  obtain t1 g1 where s1: "get_interests (PInt 1) g = (t1, g1)"
    by (cases "get_interests (PInt 1) g")
  obtain t2 g2 where s2: "get_interests (PInt 2) g1 = (t2, g2)"
    by (cases "get_interests (PInt 2) g1")
  obtain t3 g3 where s3: "get_interests (PInt 3) g2 = (t3, g3)"
    by (cases "get_interests (PInt 3) g2")
  have m: "m = [(PInt 1, t1), (PInt 2, t2), (PInt 3, t3)]"
    by (simp add: assms ClientsInterestsRequest_execute_def s1 s2 s3 dict_put_def key_eq_def)
  have p1: "length t1 = 2 \<and> distinct t1 \<and> set t1 \<subseteq> set interests"
    using get_interests_two_distinct [of "PInt 1" g] by (simp add: s1)
  have p2: "length t2 = 2 \<and> distinct t2 \<and> set t2 \<subseteq> set interests"
    using get_interests_two_distinct [of "PInt 2" g1] by (simp add: s2)
  have p3: "length t3 = 2 \<and> distinct t3 \<and> set t3 \<subseteq> set interests"
    using get_interests_two_distinct [of "PInt 3" g2] by (simp add: s3)
  show ?thesis
    using p1 p2 p3 interests_distinct by (simp add: m)
qed

text \<open>C9 at the generator whose raw draws are 3, 10, 17, 24, ...\<close>

theorem clients_interests_123_witness:
  "fst (ClientsInterestsRequest_execute
          \<lparr>client_ids = PList [PInt 1, PInt 2, PInt 3], date = PStr ''20.07.2017''\<rparr>
          (\<lambda>i. 7 * i + 3))
     = [(PInt 1, [''hi-tech'', ''cars'']), (PInt 2, [''books'', ''sport'']),
        (PInt 3, [''geek'', ''cinema''])]
   \<and> map fst (fst (ClientsInterestsRequest_execute
          \<lparr>client_ids = PList [PInt 1, PInt 2, PInt 3], date = PStr ''20.07.2017''\<rparr>
          (\<lambda>i. 7 * i + 3)))
     = [PInt 1, PInt 2, PInt 3]"
  using clients_interests_123 [OF refl, of "PStr ''20.07.2017''" "\<lambda>i. 7 * i + 3"]
  by (simp add: ClientsInterestsRequest_execute_def get_interests_def random_sample_def
      interests_def numeral_2_eq_2 randbelow_def dict_put_def key_eq_def Let_def)

end
